theory Spec2Isabelle
  imports Complex_Main
begin

section \<open>JavaScript values used by the job portal\<close>

text \<open>
  Strings are lists of characters. The model covers ASCII text, where
  \<^verbatim>\<open>String.prototype.toLowerCase\<close> maps the letters A to Z onto a to z and
  leaves every other character alone, and where \<^verbatim>\<open>.length\<close> is the number of
  characters. A field of \<^verbatim>\<open>req.body\<close> or \<^verbatim>\<open>req.query\<close> is either absent
  (\<^verbatim>\<open>undefined\<close>, \<open>None\<close>) or a string; arrays and nested objects that the
  body parser can also produce are outside the model. Numbers are the integers
  that a JavaScript number represents exactly. Calls into the document store and
  into bcrypt are taken to complete; what they compute is described at each use.
\<close>

datatype js_error =
    TypeError
  | Error string
  | ValidationError
  | DuplicateKeyError
  | MulterError string

definition upper_letters :: string where
  "upper_letters = ''ABCDEFGHIJKLMNOPQRSTUVWXYZ''"

definition lower_letters :: string where
  "lower_letters = ''abcdefghijklmnopqrstuvwxyz''"

definition toLowerCase_char :: "char \<Rightarrow> char" where
  "toLowerCase_char c =
     (case map_of (zip upper_letters lower_letters) c of
        None \<Rightarrow> c
      | Some d \<Rightarrow> d)"

definition toLowerCase :: "string \<Rightarrow> string" where
  "toLowerCase s = map toLowerCase_char s"

text \<open>\<^verbatim>\<open>s.startsWith(t)\<close> and \<^verbatim>\<open>s.includes(t)\<close>: \<open>t\<close> occurs in \<open>s\<close> at
  position 0, respectively at some position.\<close>

fun startsWith :: "string \<Rightarrow> string \<Rightarrow> bool" where
  "startsWith s [] = True"
| "startsWith [] (d # t) = False"
| "startsWith (c # s) (d # t) = (c = d \<and> startsWith s t)"

fun js_includes :: "string \<Rightarrow> string \<Rightarrow> bool" where
  "js_includes [] t = (t = [])"
| "js_includes (c # s) t = (startsWith (c # s) t \<or> js_includes s t)"

text \<open>\<^verbatim>\<open>String.prototype.trim\<close> on ASCII text: tab, line feed, vertical tab,
  form feed, carriage return and space are removed from both ends.\<close>

definition is_space :: "char \<Rightarrow> bool" where
  "is_space c = (c \<in> set [CHR 0x09, CHR 0x0A, CHR 0x0B, CHR 0x0C, CHR 0x0D, CHR '' ''])"

definition js_trim :: "string \<Rightarrow> string" where
  "js_trim s = rev (dropWhile is_space (rev (dropWhile is_space s)))"

text \<open>Truthiness of an optional string: \<^verbatim>\<open>undefined\<close> and \<^verbatim>\<open>""\<close> are falsy.\<close>

fun truthy :: "string option \<Rightarrow> bool" where
  "truthy None = False"
| "truthy (Some s) = (s \<noteq> [])"

text \<open>
  \<^verbatim>\<open>Array.prototype.slice(start, end)\<close> on integer arguments: a negative index
  counts from the end of the array, both indices are clamped to the array, and an
  empty range yields the empty array.
\<close>

definition js_slice :: "'a list \<Rightarrow> int \<Rightarrow> int \<Rightarrow> 'a list" where
  "js_slice xs start stop =
     (let len = int (length xs);
          k = (if start < 0 then max (len + start) 0 else min start len);
          final = (if stop < 0 then max (len + stop) 0 else min stop len)
      in take (nat (final - k)) (drop (nat k) xs))"

text \<open>
  \<^verbatim>\<open>Array.prototype.filter\<close> with a callback that may throw: the elements are
  visited from the left and the first exception aborts the call.
\<close>

fun js_filter :: "('a \<Rightarrow> js_error + bool) \<Rightarrow> 'a list \<Rightarrow> js_error + 'a list" where
  "js_filter f [] = Inr []"
| "js_filter f (x # xs) =
     (case f x of
        Inl e \<Rightarrow> Inl e
      | Inr b \<Rightarrow>
          (case js_filter f xs of
             Inl e \<Rightarrow> Inl e
           | Inr r \<Rightarrow> Inr (if b then x # r else r)))"

text \<open>
  \<^verbatim>\<open>Math.ceil(a / b)\<close> for an array length \<open>a\<close> and the positive page size
  \<open>b\<close>. Array lengths are below \<open>2 ^ 32\<close>, where the floating-point quotient is
  close enough to the exact one for the ceiling to be the exact ceiling.
\<close>

definition js_ceil_div :: "int \<Rightarrow> int \<Rightarrow> int" where
  "js_ceil_div a b = - ((- a) div b)"


section \<open>Responses\<close>

text \<open>
  What a route answers: the response itself and the flash messages it queued.
  \<open>RenderError\<close> is the page of the central error handler.
\<close>

datatype response =
    Redirect string
  | Render string
  | RenderError js_error

record reply =
  response :: response
  flash_error :: "string list"
  flash_success :: "string list"

text \<open>The error-handling middleware that \<^verbatim>\<open>next(error)\<close> reaches.\<close>

definition errorHandler :: "js_error \<Rightarrow> reply" where
  "errorHandler err =
     (case err of
        MulterError message \<Rightarrow>
          \<lparr> response = Redirect ''back'',
            flash_error = [''File upload error: '' @ message],
            flash_success = [] \<rparr>
      | _ \<Rightarrow>
          \<lparr> response = RenderError err, flash_error = [], flash_success = [] \<rparr>)"


section \<open>The job registry\<close>

text \<open>
  A job copies the fields of the posting request as they are, so a field that the
  request left out is \<^verbatim>\<open>undefined\<close> in the job.
\<close>

record job =
  job_id :: int
  userId :: string
  title :: "string option"
  company :: "string option"
  description :: "string option"
  requirements :: "string option"
  location :: "string option"
  createdAt :: int

record job_body =
  body_title :: "string option"
  body_company :: "string option"
  body_description :: "string option"
  body_requirements :: "string option"
  body_location :: "string option"

text \<open>\<^verbatim>\<open>isAuthenticated\<close>: \<open>None\<close> stands for \<^verbatim>\<open>next()\<close>. The principal of a
  request is the id of its user, \<open>None\<close> for an anonymous request.\<close>

definition isAuthenticated :: "string option \<Rightarrow> reply option" where
  "isAuthenticated user =
     (case user of
        Some uid \<Rightarrow> None
      | None \<Rightarrow>
          Some \<lparr> response = Redirect ''/auth/login'',
                 flash_error = [''Please sign in to continue''],
                 flash_success = [] \<rparr>)"

text \<open>The \<^verbatim>\<open>errors\<close> array that \<^verbatim>\<open>validateJob\<close> builds, one push after another.\<close>

definition validateJob_errors :: "job_body \<Rightarrow> string list" where
  "validateJob_errors body =
     (let errors = [];
          errors =
            (if (case body_title body of None \<Rightarrow> True | Some t \<Rightarrow> t = [] \<or> length t < 3)
             then errors @ [''Title must be at least 3 characters''] else errors);
          errors =
            (if \<not> truthy (body_company body)
             then errors @ [''Company name is required''] else errors);
          errors =
            (if (case body_description body of None \<Rightarrow> True | Some d \<Rightarrow> d = [] \<or> length d < 10)
             then errors @ [''Description must be at least 10 characters''] else errors)
      in errors)"

definition validateJob :: "job_body \<Rightarrow> reply option" where
  "validateJob body =
     (let errors = validateJob_errors body
      in if length errors > 0
         then Some \<lparr> response = Redirect ''/employer/post-job'',
                      flash_error = errors,
                      flash_success = [] \<rparr>
         else None)"

text \<open>The handler of \<^verbatim>\<open>POST /employer/post-job\<close>, with \<^verbatim>\<open>Date.now()\<close> given.\<close>

definition postJob_handler :: "job list \<Rightarrow> string \<Rightarrow> int \<Rightarrow> job_body \<Rightarrow> reply \<times> job list" where
  "postJob_handler jobs uid now body =
     (let job = \<lparr> job_id = now,
                  userId = uid,
                  title = body_title body,
                  company = body_company body,
                  description = body_description body,
                  requirements = body_requirements body,
                  location = body_location body,
                  createdAt = now \<rparr>
      in (\<lparr> response = Redirect ''/jobs'',
            flash_error = [],
            flash_success = [''Job posted successfully!''] \<rparr>,
          jobs @ [job]))"

text \<open>The route: \<^verbatim>\<open>[isAuthenticated, validateJob]\<close>, then the handler.\<close>

definition postJob :: "job list \<Rightarrow> string option \<Rightarrow> int \<Rightarrow> job_body \<Rightarrow> reply \<times> job list" where
  "postJob jobs user now body =
     (case isAuthenticated user of
        Some r \<Rightarrow> (r, jobs)
      | None \<Rightarrow>
          (case validateJob body of
             Some r \<Rightarrow> (r, jobs)
           | None \<Rightarrow>
               (case user of
                  Some uid \<Rightarrow> postJob_handler jobs uid now body
                | None \<Rightarrow> (errorHandler TypeError, jobs))))"

text \<open>The query of \<^verbatim>\<open>GET /jobs\<close>: \<^verbatim>\<open>const { search, location, page = 1 } = req.query\<close>.\<close>

record jobs_query =
  q_search :: "string option"
  q_location :: "string option"
  q_page :: "int option"

record pagination =
  pg_current :: int
  pg_total :: int
  hasNext :: bool
  hasPrev :: bool

record jobs_view =
  view_jobs :: "job list"
  view_pagination :: pagination

definition page_of :: "jobs_query \<Rightarrow> int" where
  "page_of q = (case q_page q of None \<Rightarrow> 1 | Some p \<Rightarrow> p)"

text \<open>
  The two filter callbacks. \<^verbatim>\<open>job.title.toLowerCase()\<close> throws a
  \<^verbatim>\<open>TypeError\<close> on a job whose field is \<^verbatim>\<open>undefined\<close>; the description is
  looked at only when the title does not match.
\<close>

definition search_callback :: "string \<Rightarrow> job \<Rightarrow> js_error + bool" where
  "search_callback search j =
     (case title j of
        None \<Rightarrow> Inl TypeError
      | Some t \<Rightarrow>
          if js_includes (toLowerCase t) (toLowerCase search) then Inr True
          else (case description j of
                  None \<Rightarrow> Inl TypeError
                | Some d \<Rightarrow> Inr (js_includes (toLowerCase d) (toLowerCase search))))"

definition location_callback :: "string \<Rightarrow> job \<Rightarrow> js_error + bool" where
  "location_callback loc j =
     (case location j of
        None \<Rightarrow> Inl TypeError
      | Some l \<Rightarrow> Inr (js_includes (toLowerCase l) (toLowerCase loc)))"

text \<open>The filter stage of \<^verbatim>\<open>GET /jobs\<close>: the search filter, then the location
  filter on what the first one kept.\<close>

definition filterJobs :: "job list \<Rightarrow> jobs_query \<Rightarrow> js_error + job list" where
  "filterJobs jobs q =
     (case (case q_search q of
              None \<Rightarrow> Inr jobs
            | Some search \<Rightarrow>
                if search \<noteq> [] then js_filter (search_callback search) jobs else Inr jobs) of
        Inl e \<Rightarrow> Inl e
      | Inr filteredJobs \<Rightarrow>
          (case q_location q of
             None \<Rightarrow> Inr filteredJobs
           | Some loc \<Rightarrow>
               if loc \<noteq> [] then js_filter (location_callback loc) filteredJobs
               else Inr filteredJobs))"

text \<open>
  The handler of \<^verbatim>\<open>GET /jobs\<close>. An exception of the filter stage goes to
  \<^verbatim>\<open>next(error)\<close>, here \<open>Inl\<close>; otherwise the view model is rendered. The page
  is an integer: the query parameter read as a number, 1 when it is absent.
\<close>

definition getJobs :: "job list \<Rightarrow> jobs_query \<Rightarrow> js_error + jobs_view" where
  "getJobs jobs q =
     (let page = page_of q;
          limit = 10;
          skip = (page - 1) * limit
      in case filterJobs jobs q of
           Inl e \<Rightarrow> Inl e
         | Inr filteredJobs \<Rightarrow>
             (let totalJobs = int (length filteredJobs);
                  totalPages = js_ceil_div totalJobs limit
              in Inr \<lparr> view_jobs = js_slice filteredJobs skip (skip + limit),
                       view_pagination =
                         \<lparr> pg_current = page,
                           pg_total = totalPages,
                           hasNext = (page < totalPages),
                           hasPrev = (page > 1) \<rparr> \<rparr>))"

text \<open>The home page: \<^verbatim>\<open>jobs.filter(job => !req.user || job.userId === req.user.id)\<close>.\<close>

definition homeJobs :: "job list \<Rightarrow> string option \<Rightarrow> job list" where
  "homeJobs jobs user =
     filter (\<lambda>j. (case user of None \<Rightarrow> True | Some uid \<Rightarrow> userId j = uid)) jobs"


section \<open>Users, credentials and registration\<close>

text \<open>
  A stored user document, with the fields that the routes read or write. The
  other fields of the schema keep their defaults.
\<close>

record user =
  user_id :: string
  user_name :: string
  user_email :: string
  user_password :: string
  user_role :: string
  user_avatar :: "string option"

text \<open>
  The \<^verbatim>\<open>email\<close> path of the schema has \<^verbatim>\<open>lowercase: true\<close> and
  \<^verbatim>\<open>trim: true\<close>: the setters run on every value assigned to the path, and
  Mongoose casts a filter value on the path with the same setters.
\<close>

definition email_setter :: "string \<Rightarrow> string" where
  "email_setter v = toLowerCase (js_trim v)"

definition findOne_email :: "user list \<Rightarrow> string \<Rightarrow> user option" where
  "findOne_email users email = find (\<lambda>u. user_email u = email_setter email) users"

text \<open>
  The verify callback of the local strategy, the same text in the application
  and in \<^verbatim>\<open>config/database.js\<close>. \<open>compare\<close> is \<^verbatim>\<open>bcrypt.compare\<close>. Passport
  calls it with two non-empty strings.
\<close>

datatype verify_result =
    Done_user user
  | Done_fail string

definition verify :: "user list \<Rightarrow> (string \<Rightarrow> string \<Rightarrow> bool) \<Rightarrow> string \<Rightarrow> string \<Rightarrow> verify_result" where
  "verify users compare email password =
     (case findOne_email users (toLowerCase email) of
        None \<Rightarrow> Done_fail ''Incorrect email or password''
      | Some u \<Rightarrow>
          (let isMatch = compare password (user_password u)
           in if \<not> isMatch then Done_fail ''Incorrect email or password''
              else Done_user u))"





section \<open>Uploads\<close>

text \<open>
  The file part of a multipart request as multer presents it to the filter,
  with the number of bytes that follow.
\<close>

record upload_file =
  fieldname :: string
  originalname :: string
  mimetype :: string
  file_size :: nat

text \<open>What an upload did to the disk, in order.\<close>

datatype disk_op =
    WriteFile string
  | RemoveFile string

text \<open>The filter of the application: one list of types for every field.\<close>

definition allowedTypes :: "string list" where
  "allowedTypes = [''image/jpeg'', ''image/png'', ''application/pdf'']"

definition fileFilter :: "upload_file \<Rightarrow> js_error + bool" where
  "fileFilter file =
     (if \<not> (mimetype file \<in> set allowedTypes) then Inl (Error ''Invalid file type'')
      else Inr True)"

definition destination :: "upload_file \<Rightarrow> string" where
  "destination file =
     (if fieldname file = ''resume'' then ''public/uploads/resumes''
      else ''public/uploads/avatars'')"

text \<open>\<^verbatim>\<open>Date.now() + '-' + file.originalname\<close>, with the decimal text of the
  time given.\<close>

definition filename :: "string \<Rightarrow> upload_file \<Rightarrow> string" where
  "filename now file = now @ ''-'' @ originalname file"

text \<open>
  \<^verbatim>\<open>upload.single(field)\<close>. The order of the stages is multer's: a file in
  another field is refused, then the filter decides, and only an accepted file
  reaches the disk storage. A file that outgrows \<^verbatim>\<open>limits.fileSize\<close> while it
  is written is removed again. The result is the stored name, if a file was sent.
\<close>

definition upload_single ::
  "string \<Rightarrow> string \<Rightarrow> upload_file option \<Rightarrow> (js_error + string option) \<times> disk_op list" where
  "upload_single field now file =
     (case file of
        None \<Rightarrow> (Inr None, [])
      | Some f \<Rightarrow>
          if fieldname f \<noteq> field then (Inl (MulterError ''Unexpected field''), [])
          else
            (case fileFilter f of
               Inl e \<Rightarrow> (Inl e, [])
             | Inr accepted \<Rightarrow>
                 (let path = destination f @ ''/'' @ filename now f
                  in if file_size f > 5 * 1024 * 1024
                     then (Inl (MulterError ''File too large''), [WriteFile path, RemoveFile path])
                     else (Inr (Some (filename now f)), [WriteFile path]))))"


text \<open>
  The filter of \<^verbatim>\<open>config/database.js\<close>. \<^verbatim>\<open>/jpeg|jpg|png|gif/.test(s)\<close> holds when
  one of the four words occurs in \<open>s\<close>; \<^verbatim>\<open>path.extname\<close> is the part of the last
  path segment from its last dot on, empty when there is no dot, when the only
  dot leads the segment, or when the segment is \<^verbatim>\<open>..\<close>.
\<close>

definition filetypes_test :: "string \<Rightarrow> bool" where
  "filetypes_test s =
     (js_includes s ''jpeg'' \<or> js_includes s ''jpg'' \<or> js_includes s ''png'' \<or>
      js_includes s ''gif'')"

definition path_extname :: "string \<Rightarrow> string" where
  "path_extname p =
     (let base = rev (takeWhile (\<lambda>c. c \<noteq> CHR ''/'')
                   (dropWhile (\<lambda>c. c = CHR ''/'') (rev p)));
          ext_rev = takeWhile (\<lambda>c. c \<noteq> CHR ''.'') (rev base)
      in if CHR ''.'' \<notin> set base then []
         else if length ext_rev + 1 = length base then []
         else if base = ''..'' then []
         else CHR ''.'' # rev ext_rev)"

definition fileFilter_config :: "upload_file \<Rightarrow> js_error + bool" where
  "fileFilter_config file =
     (let extname = filetypes_test (toLowerCase (path_extname (originalname file)));
          mimetype_ok = filetypes_test (mimetype file)
      in if mimetype_ok \<and> extname then Inr True
         else Inl (Error ''Error: Images Only!''))"

definition upload_single_config ::
  "string \<Rightarrow> string \<Rightarrow> string \<Rightarrow> upload_file option \<Rightarrow> (js_error + string option) \<times> disk_op list" where
  "upload_single_config uploadDir field now file =
     (case file of
        None \<Rightarrow> (Inr None, [])
      | Some f \<Rightarrow>
          if fieldname f \<noteq> field then (Inl (MulterError ''Unexpected field''), [])
          else
            (case fileFilter_config f of
               Inl e \<Rightarrow> (Inl e, [])
             | Inr accepted \<Rightarrow>
                 (let path = uploadDir @ ''/'' @ filename now f
                  in if file_size f > 5000000
                     then (Inl (MulterError ''File too large''), [WriteFile path, RemoveFile path])
                     else (Inr (Some (filename now f)), [WriteFile path]))))"


section \<open>Start-up\<close>

text \<open>
  What \<^verbatim>\<open>connectDB\<close> does, as the sequence of its actions. \<open>env_uri\<close> is
  \<^verbatim>\<open>process.env.MONGODB_URI\<close>, and \<open>connect uri\<close> tells whether
  \<^verbatim>\<open>mongoose.connect(uri)\<close> resolves.
\<close>

datatype startup_action =
    Connect string
  | ConsoleLog string
  | ConsoleError string
  | ProcessExit int
  | UseSession string
  | ConfigurePassport
  | ConfigureFileUpload
  | ConfigureAuthRoutes

definition default_uri :: string where
  "default_uri =
     ''mongodb+srv://<username>:<password>@<cluster>.mongodb.net/<dbname>?retryWrites=true&w=majority''"

definition mongodb_uri :: "string option \<Rightarrow> string" where
  "mongodb_uri env_uri =
     (case env_uri of
        None \<Rightarrow> default_uri
      | Some u \<Rightarrow> if u \<noteq> [] then u else default_uri)"

definition connectDB :: "string option \<Rightarrow> (string \<Rightarrow> bool) \<Rightarrow> startup_action list" where
  "connectDB env_uri connect =
     (let MONGODB_URI = mongodb_uri env_uri
      in if connect MONGODB_URI
         then [Connect MONGODB_URI, ConsoleLog ''Connected to MongoDB Atlas'']
         else [Connect MONGODB_URI, ConsoleError ''MongoDB connection error:'', ProcessExit 1])"

text \<open>The variant of \<^verbatim>\<open>config/database.js\<close>, which configures the application
  once the connection stands.\<close>

definition connectDB_config :: "string option \<Rightarrow> (string \<Rightarrow> bool) \<Rightarrow> startup_action list" where
  "connectDB_config env_uri connect =
     (let MONGODB_URI = mongodb_uri env_uri
      in if connect MONGODB_URI
         then [Connect MONGODB_URI, ConsoleLog ''Connected to MongoDB Atlas'',
               UseSession MONGODB_URI, ConfigurePassport, ConfigureFileUpload,
               ConfigureAuthRoutes]
         else [Connect MONGODB_URI, ConsoleError ''MongoDB connection error:'', ProcessExit 1])"

fun is_connect :: "startup_action \<Rightarrow> bool" where
  "is_connect (Connect uri) = True"
| "is_connect a = False"


section \<open>The search of the specification\<close>

text \<open>
  The specification's words for the search, to compare the filters with: a term
  matches a text without regard to case when some stretch of the text equals the
  term up to the case of its letters; a job matches a query when the search term,
  if supplied, matches its title or its description, and the location term, if
  supplied, matches its location.
\<close>

definition ci_substring :: "string \<Rightarrow> string \<Rightarrow> bool" where
  "ci_substring needle hay =
     (\<exists>p m r. hay = p @ m @ r \<and> toLowerCase m = toLowerCase needle)"

definition has_fields :: "job \<Rightarrow> bool" where
  "has_fields j = (title j \<noteq> None \<and> description j \<noteq> None \<and> location j \<noteq> None)"

definition matches_query :: "jobs_query \<Rightarrow> job \<Rightarrow> bool" where
  "matches_query q j =
     ((\<forall>s t d. q_search q = Some s \<and> title j = Some t \<and> description j = Some d \<longrightarrow>
          ci_substring s t \<or> ci_substring s d)
      \<and> (\<forall>l loc. q_location q = Some l \<and> location j = Some loc \<longrightarrow> ci_substring l loc))"


section \<open>Sample data\<close>

text \<open>A posting and a user on which the handlers are run in the examples below.\<close>

definition example_job :: "nat \<Rightarrow> job" where
  "example_job i =
     \<lparr> job_id = int i,
       userId = ''u1'',
       title = Some ''Engineer'',
       company = Some ''Acme'',
       description = Some ''Builds things'',
       requirements = None,
       location = Some ''Paris'',
       createdAt = int i \<rparr>"

definition example_body :: job_body where
  "example_body =
     \<lparr> body_title = Some ''Engineer'',
       body_company = Some ''Acme'',
       body_description = Some ''Builds things'',
       body_requirements = None,
       body_location = None \<rparr>"

definition example_user :: user where
  "example_user =
     \<lparr> user_id = ''id1'',
       user_name = ''Alice'',
       user_email = ''alice@x.com'',
       user_password = ''saltpw123456'',
       user_role = ''jobseeker'',
       user_avatar = Some ''/images/default-avatar.png'' \<rparr>"




definition example_compare :: "string \<Rightarrow> string \<Rightarrow> bool" where
  "example_compare password hashed = (hashed = ''salt'' @ password)"


section \<open>Facts about the JavaScript helpers\<close>

lemma js_ceil_div_ceiling: "js_ceil_div a 10 = \<lceil>real_of_int a / 10\<rceil>"
proof -
  have "\<lceil>real_of_int a / real_of_int 10\<rceil> = - ((- a) div 10)"
    by (rule ceiling_divide_eq_div)
  then show ?thesis by (simp add: js_ceil_div_def)
qed

lemma js_slice_nonneg:
  assumes "0 \<le> s"
  shows "js_slice xs s (s + 10) = take 10 (drop (nat s) xs)"
proof (cases "s < int (length xs)")
  case True
  with assms have "nat (min (s + 10) (int (length xs)) - s) = min 10 (length xs - nat s)"
    by (simp add: min_def) linarith
  with True assms show ?thesis
    by (simp add: js_slice_def Let_def min_def)
next
  case False
  with assms show ?thesis
    by (simp add: js_slice_def Let_def min_def)
qed

lemma js_slice_page0: "js_slice xs (- 10) 0 = []"
  by (simp add: js_slice_def Let_def)


section \<open>Lowercasing, trimming and the user store\<close>















section \<open>Substring search\<close>

lemma startsWith_iff: "startsWith s t \<longleftrightarrow> (\<exists>r. s = t @ r)"
  by (induction s t rule: startsWith.induct) auto

lemma js_includes_iff: "js_includes s t \<longleftrightarrow> (\<exists>p r. s = p @ t @ r)"
proof (induction s)
  case Nil
  then show ?case by auto
next
  case (Cons c s)
  show ?case
  proof
    assume "js_includes (c # s) t"
    then consider "startsWith (c # s) t" | "js_includes s t" by auto
    then show "\<exists>p r. c # s = p @ t @ r"
    proof cases
      case 1
      then obtain r where "c # s = t @ r" by (auto simp: startsWith_iff)
      then have "c # s = [] @ t @ r" by simp
      then show ?thesis by blast
    next
      case 2
      with Cons.IH obtain p r where "s = p @ t @ r" by auto
      then have "c # s = (c # p) @ t @ r" by simp
      then show ?thesis by blast
    qed
  next
    assume "\<exists>p r. c # s = p @ t @ r"
    then obtain p r where e: "c # s = p @ t @ r" by auto
    show "js_includes (c # s) t"
    proof (cases p)
      case Nil
      with e have "startsWith (c # s) t" by (auto simp: startsWith_iff)
      then show ?thesis by simp
    next
      case (Cons a p')
      with e have "s = p' @ t @ r" by simp
      with Cons.IH have "js_includes s t" by blast
      then show ?thesis by simp
    qed
  qed
qed

lemma map_eq_append3:
  assumes "map f xs = p @ t @ r"
  shows "\<exists>p' m r'. xs = p' @ m @ r' \<and> map f m = t"
proof -
  have "map f (take (length t) (drop (length p) xs)) = take (length t) (drop (length p) (map f xs))"
    by (simp add: take_map drop_map)
  also have "\<dots> = t" using assms by simp
  finally have m: "map f (take (length t) (drop (length p) xs)) = t" .
  have "xs = take (length p) xs @ drop (length p) xs"
    by (simp only: append_take_drop_id)
  also have "drop (length p) xs = take (length t) (drop (length p) xs)
               @ drop (length t) (drop (length p) xs)"
    by (simp only: append_take_drop_id)
  finally have "xs = take (length p) xs @ take (length t) (drop (length p) xs)
               @ drop (length t) (drop (length p) xs)" .
  with m show ?thesis by blast
qed

lemma js_includes_ci_substring:
  "js_includes (toLowerCase hay) (toLowerCase needle) \<longleftrightarrow> ci_substring needle hay"
proof
  assume "js_includes (toLowerCase hay) (toLowerCase needle)"
  then obtain p r where "map toLowerCase_char hay = p @ map toLowerCase_char needle @ r"
    by (auto simp: js_includes_iff toLowerCase_def)
  then have "\<exists>p' m r'. hay = p' @ m @ r' \<and> map toLowerCase_char m = map toLowerCase_char needle"
    by (rule map_eq_append3)
  then show "ci_substring needle hay"
    by (simp add: ci_substring_def toLowerCase_def)
next
  assume "ci_substring needle hay"
  then obtain p m r where "hay = p @ m @ r" and "toLowerCase m = toLowerCase needle"
    by (auto simp: ci_substring_def)
  then have "toLowerCase hay = toLowerCase p @ toLowerCase needle @ toLowerCase r"
    by (simp add: toLowerCase_def)
  then show "js_includes (toLowerCase hay) (toLowerCase needle)"
    unfolding js_includes_iff by blast
qed

lemma ci_substring_empty: "ci_substring [] hay"
  unfolding ci_substring_def by (rule exI [of _ "[]"], rule exI [of _ "[]"]) (simp add: toLowerCase_def)

lemma js_filter_total:
  assumes "\<forall>x \<in> set xs. f x = Inr (g x)"
  shows "js_filter f xs = Inr (filter g xs)"
  using assms by (induction xs) simp_all

text \<open>
  On a registry in which every job has a title, a description and a location, the
  filter stage returns exactly the jobs that match the query in the
  specification's sense, in their order.
\<close>

lemma filterJobs_matching:
  assumes "\<forall>j \<in> set jobs. has_fields j"
  shows "filterJobs jobs q = Inr (filter (matches_query q) jobs)"
proof -
  define ms where "ms = (\<lambda>j::job. \<forall>s t d. q_search q = Some s \<and> title j = Some t \<and> description j = Some d \<longrightarrow>
          ci_substring s t \<or> ci_substring s d)"
  define ml where "ml = (\<lambda>j::job. \<forall>l loc. q_location q = Some l \<and> location j = Some loc \<longrightarrow> ci_substring l loc)"
  have mq: "matches_query q = (\<lambda>j. ms j \<and> ml j)"
    by (simp add: matches_query_def ms_def ml_def fun_eq_iff)
  have s1: "(case q_search q of None \<Rightarrow> Inr jobs
            | Some search \<Rightarrow> if search \<noteq> [] then js_filter (search_callback search) jobs else Inr jobs)
           = Inr (filter ms jobs)"
  proof (cases "q_search q")
    case None
    then show ?thesis by (simp add: ms_def)
  next
    case (Some s)
    show ?thesis
    proof (cases "s = []")
      case True
      with Some show ?thesis by (simp add: ms_def ci_substring_empty)
    next
      case False
      have "\<forall>j \<in> set jobs. search_callback s j = Inr (ms j)"
      proof
        fix j assume "j \<in> set jobs"
        with assms have "has_fields j" by blast
        then obtain t d where "title j = Some t" "description j = Some d"
          by (auto simp: has_fields_def)
        with Some show "search_callback s j = Inr (ms j)"
          by (simp add: search_callback_def ms_def js_includes_ci_substring)
      qed
      then have "js_filter (search_callback s) jobs = Inr (filter ms jobs)"
        by (rule js_filter_total)
      with Some False show ?thesis by simp
    qed
  qed
  have s2: "(case q_location q of None \<Rightarrow> Inr xs
            | Some loc \<Rightarrow> if loc \<noteq> [] then js_filter (location_callback loc) xs else Inr xs)
           = Inr (filter ml xs)" if "set xs \<subseteq> set jobs" for xs
  proof (cases "q_location q")
    case None
    then show ?thesis by (simp add: ml_def)
  next
    case (Some l)
    show ?thesis
    proof (cases "l = []")
      case True
      with Some show ?thesis by (simp add: ml_def ci_substring_empty)
    next
      case False
      have "\<forall>j \<in> set xs. location_callback l j = Inr (ml j)"
      proof
        fix j assume "j \<in> set xs"
        with that assms have "has_fields j" by blast
        then obtain loc where "location j = Some loc"
          by (auto simp: has_fields_def)
        with Some show "location_callback l j = Inr (ml j)"
          by (simp add: location_callback_def ml_def js_includes_ci_substring)
      qed
      then have "js_filter (location_callback l) xs = Inr (filter ml xs)"
        by (rule js_filter_total)
      with Some False show ?thesis by simp
    qed
  qed
  have "filterJobs jobs q = Inr (filter ml (filter ms jobs))"
    unfolding filterJobs_def s1 using s2 [of "filter ms jobs"] by simp
  then show ?thesis by (simp add: mq)
qed

section \<open>Search and pagination\<close>

text \<open>
  Claim C1. Job search with page size 10: when the filter stage yields \<open>N\<close>
  matching jobs and the page \<open>p\<close> is at least 1, the reported total is
  \<open>\<lceil>N / 10\<rceil>\<close>, the page holds the matching jobs at the indices
  \<open>10 * (p - 1)\<close> to \<open>10 * (p - 1) + 9\<close> (as far as they exist), \<open>hasNext\<close>
  holds exactly when \<open>p < \<lceil>N / 10\<rceil>\<close> and \<open>hasPrev\<close> exactly when \<open>p > 1\<close>.
  In particular, with 25 jobs and no filter, page 2 holds the jobs 10 to 19, the
  total is 3, and both flags are set.
\<close>

theorem search_pagination:
  "(filterJobs jobs q = Inr matching \<and> 1 \<le> page_of q \<longrightarrow>
      (\<exists>v. getJobs jobs q = Inr v
         \<and> pg_total (view_pagination v) = \<lceil>real (length matching) / 10\<rceil>
         \<and> view_jobs v = take 10 (drop (nat (10 * (page_of q - 1))) matching)
         \<and> (hasNext (view_pagination v) \<longleftrightarrow> page_of q < \<lceil>real (length matching) / 10\<rceil>)
         \<and> (hasPrev (view_pagination v) \<longleftrightarrow> page_of q > 1)))
   \<and> (length posted = 25 \<longrightarrow>
        getJobs posted \<lparr> q_search = None, q_location = None, q_page = Some 2 \<rparr> =
          Inr \<lparr> view_jobs = take 10 (drop 10 posted),
                view_pagination =
                  \<lparr> pg_current = 2, pg_total = 3, hasNext = True, hasPrev = True \<rparr> \<rparr>)"
proof (intro conjI impI)
  assume a: "filterJobs jobs q = Inr matching \<and> 1 \<le> page_of q"
  have c: "js_ceil_div (int (length matching)) 10 = \<lceil>real (length matching) / 10\<rceil>"
    using js_ceil_div_ceiling [of "int (length matching)"] by simp
  have s: "js_slice matching ((page_of q - 1) * 10) ((page_of q - 1) * 10 + 10)
             = take 10 (drop (nat (10 * (page_of q - 1))) matching)"
    using a js_slice_nonneg [of "(page_of q - 1) * 10" matching]
    by (simp add: mult.commute)
  show "\<exists>v. getJobs jobs q = Inr v
         \<and> pg_total (view_pagination v) = \<lceil>real (length matching) / 10\<rceil>
         \<and> view_jobs v = take 10 (drop (nat (10 * (page_of q - 1))) matching)
         \<and> (hasNext (view_pagination v) \<longleftrightarrow> page_of q < \<lceil>real (length matching) / 10\<rceil>)
         \<and> (hasPrev (view_pagination v) \<longleftrightarrow> page_of q > 1)"
    using a c s by (simp add: getJobs_def Let_def)
next
  assume l: "length posted = 25"
  have "js_slice posted 10 (10 + 10) = take 10 (drop (nat 10) posted)"
    by (rule js_slice_nonneg) simp
  then have s: "js_slice posted 10 20 = take 10 (drop 10 posted)" by simp
  show "getJobs posted \<lparr> q_search = None, q_location = None, q_page = Some 2 \<rparr> =
          Inr \<lparr> view_jobs = take 10 (drop 10 posted),
                view_pagination =
                  \<lparr> pg_current = 2, pg_total = 3, hasNext = True, hasPrev = True \<rparr> \<rparr>"
    using l s by (simp add: getJobs_def filterJobs_def page_of_def js_ceil_div_def Let_def)
qed

text \<open>The 25 sample postings, page 2.\<close>

theorem search_pagination_witness:
  "filterJobs (map example_job [0..<25])
       \<lparr> q_search = None, q_location = None, q_page = Some 2 \<rparr> = Inr (map example_job [0..<25])
   \<and> 1 \<le> page_of \<lparr> q_search = None, q_location = None, q_page = Some 2 \<rparr>
   \<and> length (map example_job [0..<25]) = 25
   \<and> getJobs (map example_job [0..<25]) \<lparr> q_search = None, q_location = None, q_page = Some 2 \<rparr> =
          Inr \<lparr> view_jobs = map example_job [10..<20],
                view_pagination =
                  \<lparr> pg_current = 2, pg_total = 3, hasNext = True, hasPrev = True \<rparr> \<rparr>"
proof -
  have h1: "filterJobs (map example_job [0..<25])
       \<lparr> q_search = None, q_location = None, q_page = Some 2 \<rparr> = Inr (map example_job [0..<25])"
    by (simp add: filterJobs_def)
  have h2: "1 \<le> page_of \<lparr> q_search = None, q_location = None, q_page = Some 2 \<rparr>"
    by (simp add: page_of_def)
  have h3: "length (map example_job [0..<25]) = 25" by simp
  have t: "take 10 (drop 10 (map example_job [0..<25])) = map example_job [10..<20]"
    by (simp add: drop_map take_map)
  from search_pagination [of "map example_job [0..<25]"
      "\<lparr> q_search = None, q_location = None, q_page = Some 2 \<rparr>" "map example_job [0..<25]"
      "map example_job [0..<25]"] h3 t
  have "getJobs (map example_job [0..<25]) \<lparr> q_search = None, q_location = None, q_page = Some 2 \<rparr> =
          Inr \<lparr> view_jobs = map example_job [10..<20],
                view_pagination =
                  \<lparr> pg_current = 2, pg_total = 3, hasNext = True, hasPrev = True \<rparr> \<rparr>"
    by simp
  with h1 h2 h3 show ?thesis by blast
qed

text \<open>
  Page 0. When the filter stage completes, the page is empty: the slice from
  \<open>-10\<close> to \<open>0\<close> is empty whatever the length of the list, so nothing
  outside the list is read. \<open>hasPrev\<close> is false, and \<open>hasNext\<close> is true exactly
  when at least one job matches the filters.
\<close>

theorem search_page_zero:
  assumes "filterJobs jobs q = Inr matching" and "q_page q = Some 0"
  shows "\<exists>v. getJobs jobs q = Inr v
     \<and> view_jobs v = []
     \<and> \<not> hasPrev (view_pagination v)
     \<and> (hasNext (view_pagination v) \<longleftrightarrow> matching \<noteq> [])"
proof -
  have p: "page_of q = 0" using assms(2) by (simp add: page_of_def)
  have "0 < js_ceil_div (int (length matching)) 10 \<longleftrightarrow> matching \<noteq> []"
    by (cases matching) (auto simp: js_ceil_div_def)
  then show ?thesis
    using assms(1) p js_slice_page0 [of matching] by (simp add: getJobs_def Let_def)
qed

text \<open>Two sample postings that match both filters, page 0.\<close>

theorem search_page_zero_witness:
  "filterJobs [example_job 0, example_job 1]
       \<lparr> q_search = Some ''ENG'', q_location = Some ''par'', q_page = Some 0 \<rparr>
     = Inr [example_job 0, example_job 1]
   \<and> (\<exists>v. getJobs [example_job 0, example_job 1]
              \<lparr> q_search = Some ''ENG'', q_location = Some ''par'', q_page = Some 0 \<rparr> = Inr v
         \<and> view_jobs v = []
         \<and> \<not> hasPrev (view_pagination v)
         \<and> hasNext (view_pagination v))"
proof -
  have h: "filterJobs [example_job 0, example_job 1]
       \<lparr> q_search = Some ''ENG'', q_location = Some ''par'', q_page = Some 0 \<rparr>
     = Inr [example_job 0, example_job 1]"
    by (simp add: filterJobs_def search_callback_def location_callback_def example_job_def
        toLowerCase_def toLowerCase_char_def upper_letters_def lower_letters_def)
  from search_page_zero [OF h] have
    "\<exists>v. getJobs [example_job 0, example_job 1]
              \<lparr> q_search = Some ''ENG'', q_location = Some ''par'', q_page = Some 0 \<rparr> = Inr v
         \<and> view_jobs v = []
         \<and> \<not> hasPrev (view_pagination v)
         \<and> hasNext (view_pagination v)"
    by simp
  with h show ?thesis by blast
qed

text \<open>
  Claim C3. The search is to return exactly the matching jobs for every job list
  and every query. It does not on a job that was posted without a location: the
  posting is accepted, and a later search with a location term throws instead of
  returning the matching jobs.
\<close>

theorem search_location_undefined:
  "postJob [] (Some ''u1'') 1 example_body =
     (\<lparr> response = Redirect ''/jobs'', flash_error = [],
        flash_success = [''Job posted successfully!''] \<rparr>,
      [(example_job 1) \<lparr> location := None \<rparr>])
   \<and> getJobs [(example_job 1) \<lparr> location := None \<rparr>]
        \<lparr> q_search = None, q_location = Some ''paris'', q_page = None \<rparr> = Inl TypeError"
  by (simp add: postJob_def isAuthenticated_def validateJob_def validateJob_errors_def
      postJob_handler_def example_body_def example_job_def getJobs_def filterJobs_def
      location_callback_def)

text \<open>
  Claim C10. A search request with page 0 is to get an empty page for every job
  list and all filters. On the registry that holds a job posted without a
  location, a request with a location term and page 0 gets no page: the location
  filter throws before the pagination is reached.
\<close>

theorem search_page_zero_location_undefined:
  "postJob [] (Some ''u1'') 1 example_body =
     (\<lparr> response = Redirect ''/jobs'', flash_error = [],
        flash_success = [''Job posted successfully!''] \<rparr>,
      [(example_job 1) \<lparr> location := None \<rparr>])
   \<and> getJobs [(example_job 1) \<lparr> location := None \<rparr>]
        \<lparr> q_search = None, q_location = Some ''paris'', q_page = Some 0 \<rparr> = Inl TypeError"
  by (simp add: postJob_def isAuthenticated_def validateJob_def validateJob_errors_def
      postJob_handler_def example_body_def example_job_def getJobs_def filterJobs_def
      location_callback_def)


section \<open>Posting a job\<close>











section \<open>The home page\<close>

text \<open>
  Claim C9. On the home page an anonymous request receives every job of the
  registry, and an authenticated request receives exactly the jobs whose
  \<open>userId\<close> is the id of its principal, so never a posting of another user.
\<close>

theorem homeJobs_visibility:
  "homeJobs jobs None = jobs
   \<and> homeJobs jobs (Some uid) = filter (\<lambda>j. userId j = uid) jobs
   \<and> (\<forall>j \<in> set (homeJobs jobs (Some uid)). userId j = uid)
   \<and> (\<forall>j \<in> set jobs. userId j = uid \<longrightarrow> j \<in> set (homeJobs jobs (Some uid)))"
  by (simp add: homeJobs_def)

text \<open>Three postings, the second one of another user.\<close>

theorem homeJobs_visibility_witness:
  "homeJobs [example_job 0, (example_job 1) \<lparr> userId := ''u2'' \<rparr>, example_job 2] None =
      [example_job 0, (example_job 1) \<lparr> userId := ''u2'' \<rparr>, example_job 2]
   \<and> homeJobs [example_job 0, (example_job 1) \<lparr> userId := ''u2'' \<rparr>, example_job 2] (Some ''u1'') =
      [example_job 0, example_job 2]
   \<and> example_job 0 \<in> set (homeJobs [example_job 0, (example_job 1) \<lparr> userId := ''u2'' \<rparr>, example_job 2]
                             (Some ''u1''))
   \<and> userId (example_job 0) = ''u1''"
  using homeJobs_visibility
    [of "[example_job 0, (example_job 1) \<lparr> userId := ''u2'' \<rparr>, example_job 2]" "''u1''"]
  by (simp add: example_job_def)

section \<open>Credentials and registration\<close>

text \<open>
  Claim C4. Credential verification fails with the same message,
  \<open>Incorrect email or password\<close>, when no user has the email and when the user
  exists but the hash comparison fails.
\<close>

theorem verify_generic_failure:
  assumes "findOne_email users (toLowerCase email) = None
           \<or> (\<exists>u. findOne_email users (toLowerCase email) = Some u
                  \<and> \<not> compare password (user_password u))"
  shows "verify users compare email password = Done_fail ''Incorrect email or password''"
  using assms by (auto simp: verify_def Let_def)

text \<open>An unknown address, and the sample user with a wrong password.\<close>

theorem verify_generic_failure_witness:
  "findOne_email [example_user] (toLowerCase ''Bob@x.com'') = None
   \<and> verify [example_user] example_compare ''Bob@x.com'' ''pw123456'' =
       Done_fail ''Incorrect email or password''
   \<and> findOne_email [example_user] (toLowerCase ''Alice@x.com'') = Some example_user
   \<and> \<not> example_compare ''wrong'' (user_password example_user)
   \<and> verify [example_user] example_compare ''Alice@x.com'' ''wrong'' =
       Done_fail ''Incorrect email or password''
   \<and> verify [example_user] example_compare ''Alice@x.com'' ''pw123456'' = Done_user example_user"
proof -
  have a: "findOne_email [example_user] (toLowerCase ''Bob@x.com'') = None"
    by (simp add: findOne_email_def example_user_def email_setter_def js_trim_def is_space_def
        toLowerCase_def toLowerCase_char_def upper_letters_def lower_letters_def)
  have b: "findOne_email [example_user] (toLowerCase ''Alice@x.com'') = Some example_user"
    by (simp add: findOne_email_def example_user_def email_setter_def js_trim_def is_space_def
        toLowerCase_def toLowerCase_char_def upper_letters_def lower_letters_def)
  have c: "\<not> example_compare ''wrong'' (user_password example_user)"
    by (simp add: example_compare_def example_user_def)
  have d: "verify [example_user] example_compare ''Alice@x.com'' ''pw123456'' = Done_user example_user"
    using b by (simp add: verify_def example_compare_def example_user_def)
  from a have 1: "verify [example_user] example_compare ''Bob@x.com'' ''pw123456'' =
       Done_fail ''Incorrect email or password''"
    by (intro verify_generic_failure) simp
  from b c have 2: "verify [example_user] example_compare ''Alice@x.com'' ''wrong'' =
       Done_fail ''Incorrect email or password''"
    by (intro verify_generic_failure) simp
  from a b c d 1 2 show ?thesis by blast
qed








section \<open>Upload filters\<close>

text \<open>
  Claim C7, as the claim has it: the list for avatar uploads holds image formats
  only. The application has one list for every field, and a PDF sent as avatar is
  accepted and written.
\<close>

theorem avatar_pdf_accepted:
  "upload_single ''avatar'' ''1700000000000''
     (Some \<lparr> fieldname = ''avatar'', originalname = ''cv.pdf'', mimetype = ''application/pdf'',
             file_size = 1000 \<rparr>) =
     (Inr (Some ''1700000000000-cv.pdf''),
      [WriteFile ''public/uploads/avatars/1700000000000-cv.pdf''])"
  by (simp add: upload_single_def fileFilter_def allowedTypes_def destination_def filename_def)

text \<open>
  Claim C7, amended. A file whose declared MIME type is outside the list of its
  upload configuration is refused with nothing written to disk. The application
  accepts, in every field, exactly the types \<open>image/jpeg\<close>, \<open>image/png\<close> and
  \<open>application/pdf\<close>; the configuration of \<^verbatim>\<open>config/database.js\<close> accepts a
  file exactly when its MIME type and its lowercased extension each contain one
  of \<open>jpeg\<close>, \<open>jpg\<close>, \<open>png\<close>, \<open>gif\<close>.
\<close>

theorem upload_rejects_outside_allow_list:
  "(mimetype f \<notin> set [''image/jpeg'', ''image/png'', ''application/pdf''] \<longrightarrow>
      (\<exists>e. upload_single field now (Some f) = (Inl e, [])))
   \<and> (fileFilter f = Inr True \<longleftrightarrow>
        mimetype f \<in> set [''image/jpeg'', ''image/png'', ''application/pdf''])
   \<and> (\<not> filetypes_test (mimetype f) \<longrightarrow>
        (\<exists>e. upload_single_config uploadDir field now (Some f) = (Inl e, [])))
   \<and> (fileFilter_config f = Inr True \<longleftrightarrow>
        filetypes_test (mimetype f)
        \<and> filetypes_test (toLowerCase (path_extname (originalname f))))"
  by (auto simp: upload_single_def upload_single_config_def fileFilter_def fileFilter_config_def
      allowedTypes_def Let_def)

text \<open>A text file sent as avatar, to either configuration.\<close>

theorem upload_rejects_outside_allow_list_witness:
  "''text/plain'' \<notin> set [''image/jpeg'', ''image/png'', ''application/pdf'']
   \<and> \<not> filetypes_test ''text/plain''
   \<and> upload_single ''avatar'' ''1700000000000''
        (Some \<lparr> fieldname = ''avatar'', originalname = ''notes.png'', mimetype = ''text/plain'',
                file_size = 1000 \<rparr>) = (Inl (Error ''Invalid file type''), [])
   \<and> upload_single_config ''public/uploads'' ''avatar'' ''1700000000000''
        (Some \<lparr> fieldname = ''avatar'', originalname = ''notes.png'', mimetype = ''text/plain'',
                file_size = 1000 \<rparr>) = (Inl (Error ''Error: Images Only!''), [])"
proof -
  have a: "''text/plain'' \<notin> set [''image/jpeg'', ''image/png'', ''application/pdf'']" by simp
  have b: "\<not> filetypes_test ''text/plain''" by (simp add: filetypes_test_def)
  note th = upload_rejects_outside_allow_list
    [of "\<lparr> fieldname = ''avatar'', originalname = ''notes.png'', mimetype = ''text/plain'',
           file_size = 1000 \<rparr>" "''avatar''" "''1700000000000''" "''public/uploads''"]
  from th a have "\<exists>e. upload_single ''avatar'' ''1700000000000''
        (Some \<lparr> fieldname = ''avatar'', originalname = ''notes.png'', mimetype = ''text/plain'',
                file_size = 1000 \<rparr>) = (Inl e, [])"
    by simp
  then have c: "upload_single ''avatar'' ''1700000000000''
        (Some \<lparr> fieldname = ''avatar'', originalname = ''notes.png'', mimetype = ''text/plain'',
                file_size = 1000 \<rparr>) = (Inl (Error ''Invalid file type''), [])"
    by (simp add: upload_single_def fileFilter_def allowedTypes_def)
  from th b have "\<exists>e. upload_single_config ''public/uploads'' ''avatar'' ''1700000000000''
        (Some \<lparr> fieldname = ''avatar'', originalname = ''notes.png'', mimetype = ''text/plain'',
                file_size = 1000 \<rparr>) = (Inl e, [])"
    by simp
  then have d: "upload_single_config ''public/uploads'' ''avatar'' ''1700000000000''
        (Some \<lparr> fieldname = ''avatar'', originalname = ''notes.png'', mimetype = ''text/plain'',
                file_size = 1000 \<rparr>) = (Inl (Error ''Error: Images Only!''), [])"
    by (simp add: upload_single_config_def fileFilter_config_def filetypes_test_def Let_def)
  from a b c d show ?thesis by blast
qed

section \<open>Start-up failure\<close>

text \<open>
  Claim C8. When the first connection to the database fails, \<^verbatim>\<open>connectDB\<close>
  logs the error and ends the process with status 1: it has tried to connect
  once, and nothing follows the exit.
\<close>

theorem connectDB_failure_exits:
  assumes "\<not> connect (mongodb_uri env_uri)"
  shows "connectDB env_uri connect =
           [Connect (mongodb_uri env_uri), ConsoleError ''MongoDB connection error:'', ProcessExit 1]
       \<and> connectDB_config env_uri connect =
           [Connect (mongodb_uri env_uri), ConsoleError ''MongoDB connection error:'', ProcessExit 1]
       \<and> length (filter is_connect (connectDB env_uri connect)) = 1
       \<and> length (filter is_connect (connectDB_config env_uri connect)) = 1
       \<and> last (connectDB env_uri connect) = ProcessExit 1
       \<and> last (connectDB_config env_uri connect) = ProcessExit 1"
  using assms by (simp add: connectDB_def connectDB_config_def Let_def)

text \<open>A database that refuses the connection.\<close>

theorem connectDB_failure_exits_witness:
  "\<not> (\<lambda>uri. False) (mongodb_uri (Some ''mongodb://db.example/jobs''))
   \<and> connectDB (Some ''mongodb://db.example/jobs'') (\<lambda>uri. False) =
       [Connect ''mongodb://db.example/jobs'', ConsoleError ''MongoDB connection error:'',
        ProcessExit 1]
   \<and> connectDB_config (Some ''mongodb://db.example/jobs'') (\<lambda>uri. False) =
       [Connect ''mongodb://db.example/jobs'', ConsoleError ''MongoDB connection error:'',
        ProcessExit 1]"
  using connectDB_failure_exits [of "\<lambda>uri. False" "Some ''mongodb://db.example/jobs''"]
  by (simp add: mongodb_uri_def)

end
